theory Spec2Isabelle
  imports Main
begin

section \<open>Strings, exceptions and constants of \<^verbatim>\<open>gadalka/main.py\<close>\<close>

text \<open>
  A Python \<^verbatim>\<open>str\<close> is a sequence of Unicode code points; the program's texts are Cyrillic,
  so a string is modelled as the list of its code points.
\<close>

type_synonym ustring = "nat list"

text \<open>
  The exceptions the collaborators raise. All but \<open>CancelledError\<close> are subclasses of
  Python's \<^verbatim>\<open>Exception\<close>; \<open>CancelledError\<close> (asyncio) derives from \<^verbatim>\<open>BaseException\<close>
  only, so \<^verbatim>\<open>except Exception\<close> does not catch it.
\<close>

datatype exn =
    GenerationError
  | IndexError
  | StorageError
  | IntegrityError
  | DeliveryError
  | CancelledError

fun is_Exception :: "exn \<Rightarrow> bool" where
  "is_Exception CancelledError = False"
| "is_Exception _ = True"

text \<open>\<^verbatim>\<open>ZODIAC_SIGNS\<close> (lines 35-39), in the source's order: Oven, Telets, Bliznetsy, Rak,
  Lev, Deva, Vesy, Skorpion, Strelets, Kozerog, Vodoley, Ryby.\<close>

definition Oven :: ustring where "Oven = [1054, 1074, 1077, 1085]"
definition Telets :: ustring where "Telets = [1058, 1077, 1083, 1077, 1094]"
definition Bliznetsy :: ustring where
  "Bliznetsy = [1041, 1083, 1080, 1079, 1085, 1077, 1094, 1099]"
definition Rak :: ustring where "Rak = [1056, 1072, 1082]"
definition Lev :: ustring where "Lev = [1051, 1077, 1074]"
definition Deva :: ustring where "Deva = [1044, 1077, 1074, 1072]"
definition Vesy :: ustring where "Vesy = [1042, 1077, 1089, 1099]"
definition Skorpion :: ustring where
  "Skorpion = [1057, 1082, 1086, 1088, 1087, 1080, 1086, 1085]"
definition Strelets :: ustring where
  "Strelets = [1057, 1090, 1088, 1077, 1083, 1077, 1094]"
definition Kozerog :: ustring where
  "Kozerog = [1050, 1086, 1079, 1077, 1088, 1086, 1075]"
definition Vodoley :: ustring where
  "Vodoley = [1042, 1086, 1076, 1086, 1083, 1077, 1081]"
definition Ryby :: ustring where "Ryby = [1056, 1099, 1073, 1099]"

definition ZODIAC_SIGNS :: "ustring list" where
  "ZODIAC_SIGNS =
     [Oven, Telets, Bliznetsy, Rak, Lev, Deva, Vesy, Skorpion,
      Strelets, Kozerog, Vodoley, Ryby]"

text \<open>The callback token of the start button, \<^verbatim>\<open>'get_horoscope'\<close>.\<close>

definition get_horoscope_token :: ustring where
  "get_horoscope_token = [103, 101, 116, 95, 104, 111, 114, 111, 115, 99, 111, 112, 101]"

text \<open>Python's \<^verbatim>\<open>str(x)\<close> inside an f-string, for a value that may be \<^verbatim>\<open>None\<close>
  (a NULL column read back from the store).\<close>

fun py_str :: "ustring option \<Rightarrow> ustring" where
  "py_str None = [78, 111, 110, 101]"
| "py_str (Some s) = s"

text \<open>The user instruction of \<^verbatim>\<open>_get_horoscope_prediction\<close> (line 194): the fixed prefix
  (\<^verbatim>\<open>Znak zodiaka: \<close>) followed by the sign.\<close>

definition user_content :: "ustring option \<Rightarrow> ustring" where
  "user_content sign =
     [1047, 1085, 1072, 1082, 32, 1079, 1086, 1076, 1080, 1072, 1082, 1072, 58, 32] @ py_str sign"

text \<open>The texts the handlers send (lines 171, 183, 188, 160, 209).\<close>

definition generating_text :: "ustring \<Rightarrow> ustring" where
  "generating_text sign =
     [128269, 32, 1057, 1086, 1089, 1090, 1072, 1074, 1083, 1103, 1102, 32, 1075, 1086, 1088,
      1086, 1089, 1082, 1086, 1087, 32, 1076, 1083, 1103, 32] @ sign @ [46, 46, 46]"

definition result_text :: "ustring \<Rightarrow> ustring \<Rightarrow> ustring" where
  "result_text sign prediction =
     [9801, 32, 1042, 1072, 1096, 32, 1075, 1086, 1088, 1086, 1089, 1082, 1086, 1087, 32, 1085,
      1072, 32, 1089, 1077, 1075, 1086, 1076, 1085, 1103, 32, 40] @ sign @ [41, 58, 10, 10]
     @ prediction"

definition apology_text :: ustring where
  "apology_text =
     [9888, 65039, 32, 1055, 1088, 1086, 1080, 1079, 1086, 1096, 1083, 1072, 32, 1086, 1096,
      1080, 1073, 1082, 1072, 46, 32, 1055, 1086, 1087, 1088, 1086, 1073, 1091, 1081, 1090,
      1077, 32, 1087, 1086, 1079, 1078, 1077, 46]"

definition menu_text :: ustring where
  "menu_text =
     [128302, 32, 1042, 1099, 1073, 1077, 1088, 1080, 1090, 1077, 32, 1074, 1072, 1096, 32,
      1079, 1085, 1072, 1082, 32, 1079, 1086, 1076, 1080, 1072, 1082, 1072, 58]"

definition daily_text :: "ustring option \<Rightarrow> ustring \<Rightarrow> ustring" where
  "daily_text sign prediction =
     [127749, 32, 1042, 1072, 1096, 32, 1077, 1078, 1077, 1076, 1085, 1077, 1074, 1085, 1099,
      1081, 32, 1075, 1086, 1088, 1086, 1089, 1082, 1086, 1087, 32, 40] @ py_str sign
     @ [41, 58, 10, 10] @ prediction"

section \<open>The store: \<^verbatim>\<open>DatabaseManager\<close>\<close>

text \<open>
  The two tables of \<^verbatim>\<open>_init_db\<close> (lines 50-70). A nullable column is an \<open>option\<close>;
  timestamps are readings of a clock. A table is the list of its rows in the order a full
  scan returns them.
\<close>

record user_row =
  user_id :: int
  zodiac_sign :: "ustring option"
  notification_time :: "ustring option"
  created_at :: nat
  updated_at :: nat

record horoscope_row =
  hid :: nat
  h_user_id :: int
  h_zodiac_sign :: "ustring option"
  prediction :: ustring
  h_created_at :: nat

text \<open>
  \<open>horoscopes_seq\<close> is the AUTOINCREMENT counter of \<^verbatim>\<open>horoscopes.id\<close>. \<open>foreign_keys\<close> is
  the connection's \<^verbatim>\<open>PRAGMA foreign_keys\<close>: SQLite checks a declared FOREIGN KEY only when
  the pragma is on.
\<close>

record database =
  users :: "user_row list"
  horoscopes :: "horoscope_row list"
  horoscopes_seq :: nat
  foreign_keys :: bool

text \<open>
  \<^verbatim>\<open>__init__\<close> (lines 42-44): \<^verbatim>\<open>sqlite3.connect\<close> opens the file, \<^verbatim>\<open>_init_db\<close> creates the
  tables only if they do not exist. The argument is what the file holds (\<open>None\<close>: no
  tables yet). A new connection has the pragma off, and the program never turns it on.
\<close>

definition DatabaseManager_init :: "database option \<Rightarrow> database" where
  "DatabaseManager_init file =
     (case file of
        None \<Rightarrow> \<lparr>users = [], horoscopes = [], horoscopes_seq = 0, foreign_keys = False\<rparr>
      | Some d \<Rightarrow> d\<lparr>foreign_keys := False\<rparr>)"

text \<open>
  Every method runs its statement inside \<^verbatim>\<open>with self.conn:\<close>, which commits on success and
  rolls back when the statement raises. \<open>fault\<close> is what the storage layer raises for this
  statement (\<open>None\<close>: it executes); \<open>now\<close> is \<^verbatim>\<open>CURRENT_TIMESTAMP\<close>.

  \<^verbatim>\<open>update_user_zodiac\<close> (lines 72-79): \<^verbatim>\<open>INSERT OR REPLACE INTO users (user_id, zodiac_sign,
  updated_at) VALUES (?, ?, CURRENT_TIMESTAMP)\<close>. REPLACE deletes the row that holds the
  primary key and inserts the new one; the columns the statement does not name take their
  defaults (\<^verbatim>\<open>notification_time\<close>: NULL, \<^verbatim>\<open>created_at\<close>: CURRENT_TIMESTAMP). The primary key
  is the rowid, so the scan order is the order of \<^verbatim>\<open>user_id\<close>.
\<close>

definition update_user_zodiac ::
  "exn option \<Rightarrow> nat \<Rightarrow> database \<Rightarrow> int \<Rightarrow> ustring \<Rightarrow> exn + database" where
  "update_user_zodiac fault now d uid sign =
     (case fault of
        Some e \<Rightarrow> Inl e
      | None \<Rightarrow>
          Inr (d\<lparr>users :=
                 insort_key user_id
                   \<lparr>user_id = uid, zodiac_sign = Some sign, notification_time = None,
                    created_at = now, updated_at = now\<rparr>
                   (filter (\<lambda>r. user_id r \<noteq> uid) (users d))\<rparr>))"

text \<open>\<^verbatim>\<open>save_horoscope\<close> (lines 81-88): \<^verbatim>\<open>INSERT INTO horoscopes (user_id, zodiac_sign,
  prediction) VALUES (?, ?, ?)\<close>.\<close>

definition save_horoscope ::
  "exn option \<Rightarrow> nat \<Rightarrow> database \<Rightarrow> int \<Rightarrow> ustring option \<Rightarrow> ustring \<Rightarrow> exn + database" where
  "save_horoscope fault now d uid sign pred =
     (case fault of
        Some e \<Rightarrow> Inl e
      | None \<Rightarrow>
          if foreign_keys d \<and> uid \<notin> set (map user_id (users d)) then Inl IntegrityError
          else
            Inr (d\<lparr>horoscopes :=
                     horoscopes d @
                       [\<lparr>hid = Suc (horoscopes_seq d), h_user_id = uid, h_zodiac_sign = sign,
                         prediction = pred, h_created_at = now\<rparr>],
                   horoscopes_seq := Suc (horoscopes_seq d)\<rparr>))"

text \<open>\<^verbatim>\<open>get_users_for_notification\<close> (lines 90-98): \<^verbatim>\<open>SELECT user_id, zodiac_sign FROM users
  WHERE notification_time IS NOT NULL\<close>.\<close>

definition get_users_for_notification ::
  "exn option \<Rightarrow> database \<Rightarrow> exn + (int \<times> ustring option) list" where
  "get_users_for_notification fault d =
     (case fault of
        Some e \<Rightarrow> Inl e
      | None \<Rightarrow>
          Inr (map (\<lambda>r. (user_id r, zodiac_sign r))
                 (filter (\<lambda>r. notification_time r \<noteq> None) (users d))))"

text \<open>
  A call of one of the three methods, and a run of calls on one connection. Each call
  comes with its fault and its timestamp; a call that raises leaves the store as it was.
\<close>

datatype db_call =
    UpdateUserZodiac int ustring
  | SaveHoroscope int "ustring option" ustring
  | GetUsersForNotification

fun db_exec :: "exn option \<Rightarrow> nat \<Rightarrow> db_call \<Rightarrow> database \<Rightarrow> exn + database" where
  "db_exec fault now (UpdateUserZodiac uid sign) d = update_user_zodiac fault now d uid sign"
| "db_exec fault now (SaveHoroscope uid sign pred) d = save_horoscope fault now d uid sign pred"
| "db_exec fault now GetUsersForNotification d =
     (case get_users_for_notification fault d of Inl e \<Rightarrow> Inl e | Inr _ \<Rightarrow> Inr d)"

fun db_run :: "(exn option \<times> nat \<times> db_call) list \<Rightarrow> database \<Rightarrow> database" where
  "db_run [] d = d"
| "db_run ((fault, now, c) # cs) d =
     (case db_exec fault now c d of Inl e \<Rightarrow> db_run cs d | Inr d' \<Rightarrow> db_run cs d')"

section \<open>The bot: \<^verbatim>\<open>HoroscopeBot\<close>\<close>

text \<open>
  The collaborators are oracles indexed by the number of the external call (the \<open>tick\<close>),
  so the same request may be answered differently each time: the text-generation client
  (it returns the \<^verbatim>\<open>choices\<close> of the response, or raises), the chat transport, the
  storage layer, and the clock behind \<^verbatim>\<open>CURRENT_TIMESTAMP\<close>.
\<close>

record env =
  giga_chat :: "nat \<Rightarrow> ustring \<Rightarrow> exn + ustring list"
  telegram :: "nat \<Rightarrow> exn option"
  sqlite :: "nat \<Rightarrow> exn option"
  clock :: "nat \<Rightarrow> nat"

text \<open>What the program does that can be seen from outside, in the order it happens.\<close>

datatype event =
    GigaChatCall ustring
  | Answered
  | EditedMessage ustring "ustring list"
  | Replied ustring
  | SentMessage int ustring
  | LoggedGenerationError exn
  | LoggedSendError int exn
  | Committed db_call

record world =
  store :: database
  tick :: nat
  trace :: "event list"

text \<open>
  A piece of program either returns a value or raises; its effects up to the raise stay.
  \<open>and_then\<close> is sequencing, \<open>try_except\<close> is \<^verbatim>\<open>try: ... except Exception as e: ...\<close>,
  \<open>for_each\<close> is the \<^verbatim>\<open>for\<close> loop.
\<close>

type_synonym 'a action = "world \<Rightarrow> (exn + 'a) \<times> world"

definition and_then :: "'a action \<Rightarrow> ('a \<Rightarrow> 'b action) \<Rightarrow> 'b action" where
  "and_then m f w = (case m w of (Inl e, w') \<Rightarrow> (Inl e, w') | (Inr x, w') \<Rightarrow> f x w')"

definition try_except :: "'a action \<Rightarrow> (exn \<Rightarrow> 'a action) \<Rightarrow> 'a action" where
  "try_except m h w =
     (case m w of
        (Inl e, w') \<Rightarrow> if is_Exception e then h e w' else (Inl e, w')
      | (Inr x, w') \<Rightarrow> (Inr x, w'))"

fun for_each :: "'a list \<Rightarrow> ('a \<Rightarrow> unit action) \<Rightarrow> unit action" where
  "for_each [] body w = (Inr (), w)"
| "for_each (x # xs) body w =
     (case body x w of (Inl e, w') \<Rightarrow> (Inl e, w') | (Inr _, w') \<Rightarrow> for_each xs body w')"

text \<open>A call of the chat transport (\<^verbatim>\<open>answer\<close>, \<^verbatim>\<open>edit_message_text\<close>, \<^verbatim>\<open>reply_text\<close>,
  \<^verbatim>\<open>send_message\<close>): the event is recorded when the call succeeds.\<close>

definition tg_call :: "env \<Rightarrow> event \<Rightarrow> unit action" where
  "tg_call E ev w =
     (case telegram E (tick w) of
        Some e \<Rightarrow> (Inl e, w\<lparr>tick := Suc (tick w)\<rparr>)
      | None \<Rightarrow> (Inr (), w\<lparr>tick := Suc (tick w), trace := trace w @ [ev]\<rparr>))"

definition logger_error :: "event \<Rightarrow> unit action" where
  "logger_error ev w = (Inr (), w\<lparr>trace := trace w @ [ev]\<rparr>)"

text \<open>\<^verbatim>\<open>_get_horoscope_prediction\<close> (lines 190-198): one request to the client, then
  \<^verbatim>\<open>response.choices[0].message.content\<close>, which raises IndexError on no choices.\<close>

definition get_horoscope_prediction :: "env \<Rightarrow> ustring option \<Rightarrow> ustring action" where
  "get_horoscope_prediction E sign w =
     (let w' = w\<lparr>tick := Suc (tick w),
                 trace := trace w @ [GigaChatCall (user_content sign)]\<rparr>
      in case giga_chat E (tick w) (user_content sign) of
           Inl e \<Rightarrow> (Inl e, w')
         | Inr [] \<Rightarrow> (Inl IndexError, w')
         | Inr (c # cs) \<Rightarrow> (Inr c, w'))"

text \<open>The three store methods as the bot calls them (\<^verbatim>\<open>self.db\<close>).\<close>

definition db_update_user_zodiac :: "env \<Rightarrow> int \<Rightarrow> ustring \<Rightarrow> unit action" where
  "db_update_user_zodiac E uid sign w =
     (case update_user_zodiac (sqlite E (tick w)) (clock E (tick w)) (store w) uid sign of
        Inl e \<Rightarrow> (Inl e, w\<lparr>tick := Suc (tick w)\<rparr>)
      | Inr d \<Rightarrow>
          (Inr (), w\<lparr>store := d, tick := Suc (tick w),
                     trace := trace w @ [Committed (UpdateUserZodiac uid sign)]\<rparr>))"

definition db_save_horoscope :: "env \<Rightarrow> int \<Rightarrow> ustring option \<Rightarrow> ustring \<Rightarrow> unit action" where
  "db_save_horoscope E uid sign pred w =
     (case save_horoscope (sqlite E (tick w)) (clock E (tick w)) (store w) uid sign pred of
        Inl e \<Rightarrow> (Inl e, w\<lparr>tick := Suc (tick w)\<rparr>)
      | Inr d \<Rightarrow>
          (Inr (), w\<lparr>store := d, tick := Suc (tick w),
                     trace := trace w @ [Committed (SaveHoroscope uid sign pred)]\<rparr>))"

definition db_get_users_for_notification :: "env \<Rightarrow> (int \<times> ustring option) list action" where
  "db_get_users_for_notification E w =
     (case get_users_for_notification (sqlite E (tick w)) (store w) of
        Inl e \<Rightarrow> (Inl e, w\<lparr>tick := Suc (tick w)\<rparr>)
      | Inr rows \<Rightarrow> (Inr rows, w\<lparr>tick := Suc (tick w)\<rparr>))"

text \<open>\<^verbatim>\<open>show_zodiac_menu\<close> (lines 148-162): one button per sign, the sign as its
  \<^verbatim>\<open>callback_data\<close>.\<close>

definition show_zodiac_menu :: "env \<Rightarrow> unit action" where
  "show_zodiac_menu E =
     and_then (tg_call E Answered) (\<lambda>_. tg_call E (EditedMessage menu_text ZODIAC_SIGNS))"

text \<open>\<^verbatim>\<open>generate_horoscope\<close> (lines 164-188). \<open>uid\<close> is \<^verbatim>\<open>query.from_user.id\<close>, \<open>data\<close> is
  \<^verbatim>\<open>query.data\<close>. The two transport calls before \<^verbatim>\<open>try\<close> are outside it; the apology is sent
  from inside the \<^verbatim>\<open>except\<close> branch.\<close>

definition generate_try :: "env \<Rightarrow> int \<Rightarrow> ustring \<Rightarrow> unit action" where
  "generate_try E uid data =
     and_then (get_horoscope_prediction E (Some data)) (\<lambda>pred.
     and_then (db_update_user_zodiac E uid data) (\<lambda>_.
     and_then (db_save_horoscope E uid (Some data) pred) (\<lambda>_.
     tg_call E (Replied (result_text data pred)))))"

definition generate_except :: "env \<Rightarrow> exn \<Rightarrow> unit action" where
  "generate_except E e =
     and_then (logger_error (LoggedGenerationError e)) (\<lambda>_. tg_call E (Replied apology_text))"

definition generate_horoscope :: "env \<Rightarrow> int \<Rightarrow> ustring \<Rightarrow> unit action" where
  "generate_horoscope E uid data =
     and_then (tg_call E Answered) (\<lambda>_.
     and_then (tg_call E (EditedMessage (generating_text data) [])) (\<lambda>_.
     try_except (generate_try E uid data) (generate_except E)))"

text \<open>\<^verbatim>\<open>daily_horoscope_job\<close> (lines 200-213). The list is fetched before the loop, outside
  any \<^verbatim>\<open>try\<close>; each iteration is one \<^verbatim>\<open>try\<close>/\<^verbatim>\<open>except\<close> whose handler only logs.\<close>

definition job_try :: "env \<Rightarrow> int \<Rightarrow> ustring option \<Rightarrow> unit action" where
  "job_try E uid sign =
     and_then (get_horoscope_prediction E sign) (\<lambda>pred.
     and_then (tg_call E (SentMessage uid (daily_text sign pred))) (\<lambda>_.
     db_save_horoscope E uid sign pred))"

definition job_iteration :: "env \<Rightarrow> int \<times> ustring option \<Rightarrow> unit action" where
  "job_iteration E row =
     try_except (job_try E (fst row) (snd row))
       (\<lambda>e. logger_error (LoggedSendError (fst row) e))"

definition daily_horoscope_job :: "env \<Rightarrow> unit action" where
  "daily_horoscope_job E =
     and_then (db_get_users_for_notification E) (\<lambda>rows. for_each rows (job_iteration E))"

section \<open>Dispatch of callback queries (\<^verbatim>\<open>run\<close>, lines 227-230)\<close>

text \<open>
  The callback handlers are registered with the patterns \<^verbatim>\<open>'^get_horoscope$'\<close> and
  \<^verbatim>\<open>'^(' + '|'.join(ZODIAC_SIGNS) + ')$'\<close>; the framework applies \<^verbatim>\<open>re.match\<close> to the
  callback data and runs the first handler whose pattern matches. No sign holds a regular
  expression metacharacter, so each pattern is an alternation of literals between \<^verbatim>\<open>^\<close>
  and \<^verbatim>\<open>$\<close>. In Python, \<^verbatim>\<open>$\<close> (without MULTILINE) matches at the end of the string and
  also just before a newline that ends the string.
\<close>

definition at_dollar :: "ustring \<Rightarrow> bool" where
  "at_dollar rest \<longleftrightarrow> rest = [] \<or> rest = [10]"

definition re_match_literals :: "ustring list \<Rightarrow> ustring \<Rightarrow> bool" where
  "re_match_literals alts s =
     list_ex (\<lambda>a. take (length a) s = a \<and> at_dollar (drop (length a) s)) alts"

definition process_callback_query :: "env \<Rightarrow> int \<Rightarrow> ustring \<Rightarrow> unit action" where
  "process_callback_query E uid data w =
     (if re_match_literals [get_horoscope_token] data then show_zodiac_menu E w
      else if re_match_literals ZODIAC_SIGNS data then generate_horoscope E uid data w
      else (Inr (), w))"



fun store_writes :: "event list \<Rightarrow> db_call list" where
  "store_writes [] = []"
| "store_writes (Committed c # evs) = c # store_writes evs"
| "store_writes (_ # evs) = store_writes evs"

section \<open>Definitions used to state the properties\<close>

text \<open>The subscribers as the specification words them: every user that currently has a
  non-empty \<^verbatim>\<open>zodiac_sign\<close>. This definition follows the specification, not the code.\<close>

definition listSubscribers_spec :: "database \<Rightarrow> (int \<times> ustring option) list" where
  "listSubscribers_spec d =
     map (\<lambda>r. (user_id r, zodiac_sign r))
       (filter (\<lambda>r. zodiac_sign r \<noteq> None \<and> zodiac_sign r \<noteq> Some []) (users d))"

text \<open>No row of user \<open>uid\<close> has a notification time.\<close>

definition not_notified :: "int \<Rightarrow> database \<Rightarrow> bool" where
  "not_notified uid d \<longleftrightarrow>
     list_all (\<lambda>r. user_id r \<noteq> uid \<or> notification_time r = None) (users d)"

text \<open>A call of \<^verbatim>\<open>save_horoscope\<close> whose statement the storage layer executes.\<close>

fun is_save :: "exn option \<times> nat \<times> db_call \<Rightarrow> bool" where
  "is_save (None, now, SaveHoroscope uid sign pred) = True"
| "is_save _ = False"

text \<open>Sample stores: a user with a sign and no notification time; a user with a
  notification time and no sign; a user with a sign, the notification time \<^verbatim>\<open>09:00\<close> and
  timestamps 5.\<close>

definition db_lev_only :: database where
  "db_lev_only =
     \<lparr>users = [\<lparr>user_id = 7, zodiac_sign = Some Lev, notification_time = None,
                created_at = 1, updated_at = 1\<rparr>],
      horoscopes = [], horoscopes_seq = 0, foreign_keys = False\<rparr>"

definition db_time_only :: database where
  "db_time_only =
     \<lparr>users = [\<lparr>user_id = 8, zodiac_sign = None, notification_time = Some [48, 57, 58, 48, 48],
                created_at = 1, updated_at = 1\<rparr>],
      horoscopes = [], horoscopes_seq = 0, foreign_keys = False\<rparr>"

definition db_subscribed :: database where
  "db_subscribed =
     \<lparr>users = [\<lparr>user_id = 1, zodiac_sign = Some Oven, notification_time = Some [48, 57, 58, 48, 48],
                created_at = 5, updated_at = 5\<rparr>],
      horoscopes = [], horoscopes_seq = 0, foreign_keys = False\<rparr>"

text \<open>The history rows of \<open>w\<close> are still there in \<open>w'\<close>, unchanged and in place (new rows
  may follow them).\<close>

definition history_kept :: "world \<Rightarrow> world \<Rightarrow> bool" where
  "history_kept w w' \<longleftrightarrow>
     take (length (horoscopes (store w))) (horoscopes (store w')) = horoscopes (store w)"


text \<open>Sample stores, collaborators and worlds: two subscribers (users 1 and 2, signs Ryby
  and Telets, both with a notification time); collaborators of which one step fails; a
  world on a new, empty store.\<close>

definition db_two_subscribers :: database where
  "db_two_subscribers =
     \<lparr>users = [\<lparr>user_id = 1, zodiac_sign = Some Ryby, notification_time = Some [48, 57, 58, 48, 48],
                created_at = 1, updated_at = 1\<rparr>,
               \<lparr>user_id = 2, zodiac_sign = Some Telets, notification_time = Some [48, 57, 58, 48, 48],
                created_at = 2, updated_at = 2\<rparr>],
      horoscopes = [], horoscopes_seq = 0, foreign_keys = False\<rparr>"

definition env_ryby_fails :: env where
  "env_ryby_fails =
     \<lparr>giga_chat = (\<lambda>n c. if c = user_content (Some Ryby) then Inl GenerationError else Inr [[80]]),
      telegram = (\<lambda>n. None), sqlite = (\<lambda>n. None), clock = (\<lambda>n. n)\<rparr>"

definition env_save_fails :: env where
  "env_save_fails =
     \<lparr>giga_chat = (\<lambda>n c. Inr [[80]]), telegram = (\<lambda>n. None),
      sqlite = (\<lambda>n. if n = 2 then Some StorageError else None), clock = (\<lambda>n. n)\<rparr>"

definition env_apology_fails :: env where
  "env_apology_fails =
     \<lparr>giga_chat = (\<lambda>n c. Inl GenerationError),
      telegram = (\<lambda>n. if n = 3 then Some DeliveryError else None),
      sqlite = (\<lambda>n. None), clock = (\<lambda>n. n)\<rparr>"

definition env_update_fails :: env where
  "env_update_fails =
     \<lparr>giga_chat = (\<lambda>n c. Inr [[80]]), telegram = (\<lambda>n. None),
      sqlite = (\<lambda>n. if n = 3 then Some StorageError else None), clock = (\<lambda>n. n)\<rparr>"

definition env_second_write_fails :: env where
  "env_second_write_fails =
     \<lparr>giga_chat = (\<lambda>n c. Inr [[80]]), telegram = (\<lambda>n. None),
      sqlite = (\<lambda>n. if n = 4 then Some StorageError else None), clock = (\<lambda>n. n)\<rparr>"

definition env_all_ok :: env where
  "env_all_ok =
     \<lparr>giga_chat = (\<lambda>n c. Inr [[80]]), telegram = (\<lambda>n. None),
      sqlite = (\<lambda>n. None), clock = (\<lambda>n. n)\<rparr>"

definition env_answer_fails :: env where
  "env_answer_fails =
     \<lparr>giga_chat = (\<lambda>n c. Inr [[80]]),
      telegram = (\<lambda>n. if n = 0 then Some DeliveryError else None),
      sqlite = (\<lambda>n. None), clock = (\<lambda>n. n)\<rparr>"

definition env_send_fails :: env where
  "env_send_fails =
     \<lparr>giga_chat = (\<lambda>n c. Inr [[80]]),
      telegram = (\<lambda>n. if n = 1 then Some DeliveryError else None),
      sqlite = (\<lambda>n. None), clock = (\<lambda>n. n)\<rparr>"

definition world_fresh :: world where
  "world_fresh = \<lparr>store = DatabaseManager_init None, tick = 0, trace = []\<rparr>"

section \<open>Lemmas about the store\<close>

lemma filter_insort_key_other:
  "\<not> P x \<Longrightarrow> filter P (insort_key f x xs) = filter P xs"
  by (induction xs) auto

lemma filter_insort_key_single:
  "P x \<Longrightarrow> filter P xs = [] \<Longrightarrow> filter P (insort_key f x xs) = [x]"
  by (induction xs) (auto split: if_splits)

lemma distinct_map_insort_key:
  "distinct (map f (insort_key f x xs)) \<longleftrightarrow> f x \<notin> f ` set xs \<and> distinct (map f xs)"
  by (induction xs) (auto simp: set_insort_key)

lemma update_user_zodiac_result:
  "update_user_zodiac fault now d uid sign = Inr d' \<Longrightarrow>
   fault = None \<and>
   d' = d\<lparr>users := insort_key user_id
      \<lparr>user_id = uid, zodiac_sign = Some sign, notification_time = None,
       created_at = now, updated_at = now\<rparr> (filter (\<lambda>r. user_id r \<noteq> uid) (users d))\<rparr>"
  by (auto simp: update_user_zodiac_def split: option.splits)

lemma save_horoscope_result:
  "save_horoscope fault now d uid sign pred = Inr d' \<Longrightarrow>
   fault = None \<and>
   d' = d\<lparr>horoscopes := horoscopes d @
            [\<lparr>hid = Suc (horoscopes_seq d), h_user_id = uid, h_zodiac_sign = sign,
              prediction = pred, h_created_at = now\<rparr>],
          horoscopes_seq := Suc (horoscopes_seq d)\<rparr>"
  by (auto simp: save_horoscope_def split: option.splits if_splits)

lemma db_exec_foreign_keys:
  "db_exec fault now c d = Inr d' \<Longrightarrow> foreign_keys d' = foreign_keys d"
  by (cases c) (auto dest!: update_user_zodiac_result save_horoscope_result split: sum.splits)

lemma db_run_foreign_keys: "foreign_keys (db_run cs d) = foreign_keys d"
proof (induction cs arbitrary: d)
  case Nil
  show ?case by simp
next
  case (Cons c cs)
  obtain fault now call where c: "c = (fault, now, call)" by (cases c)
  show ?case
    using Cons.IH db_exec_foreign_keys [of fault now call d]
    by (auto simp: c split: sum.splits)
qed

lemma db_exec_horoscopes:
  "db_exec fault now c d = Inr d' \<Longrightarrow> \<exists>rows. horoscopes d' = horoscopes d @ rows"
  by (cases c) (auto dest!: update_user_zodiac_result save_horoscope_result split: sum.splits)

lemma db_run_horoscopes: "\<exists>rows. horoscopes (db_run cs d) = horoscopes d @ rows"
proof (induction cs arbitrary: d)
  case Nil
  show ?case by simp
next
  case (Cons c cs)
  obtain fault now call where c: "c = (fault, now, call)" by (cases c)
  show ?case
  proof (cases "db_exec fault now call d")
    case (Inl e)
    then show ?thesis using Cons.IH [of d] by (simp add: c)
  next
    case (Inr d')
    from db_exec_horoscopes [OF Inr] obtain r1 where r1: "horoscopes d' = horoscopes d @ r1" ..
    from Cons.IH [of d'] obtain r2 where "horoscopes (db_run cs d') = horoscopes d' @ r2" ..
    with r1 Inr show ?thesis by (simp add: c)
  qed
qed

lemma db_run_invariant:
  assumes step: "\<And>fault now c d d'. I d \<Longrightarrow> db_exec fault now c d = Inr d' \<Longrightarrow> I d'"
    and init: "I d"
  shows "I (db_run cs d)"
  using init
proof (induction cs arbitrary: d)
  case Nil
  then show ?case by simp
next
  case (Cons c cs)
  obtain fault now call where c: "c = (fault, now, call)" by (cases c)
  show ?case
  proof (cases "db_exec fault now call d")
    case (Inl e)
    then show ?thesis using Cons.IH [OF Cons.prems] by (simp add: c)
  next
    case (Inr d')
    then show ?thesis using Cons.IH [OF step [OF Cons.prems Inr]] by (simp add: c)
  qed
qed

lemma not_notified_after_update:
  assumes "update_user_zodiac fault now d uid sign = Inr d'"
  shows "not_notified uid d'"
proof -
  have "users d' = insort_key user_id
      \<lparr>user_id = uid, zodiac_sign = Some sign, notification_time = None,
       created_at = now, updated_at = now\<rparr> (filter (\<lambda>r. user_id r \<noteq> uid) (users d))"
    using update_user_zodiac_result [OF assms] by simp
  then show ?thesis
    by (simp add: not_notified_def list_all_iff set_insort_key)
qed

lemma not_notified_db_exec:
  assumes "not_notified uid d" and "db_exec fault now c d = Inr d'"
  shows "not_notified uid d'"
proof (cases c)
  case (UpdateUserZodiac u s)
  then have "users d' = insort_key user_id
      \<lparr>user_id = u, zodiac_sign = Some s, notification_time = None,
       created_at = now, updated_at = now\<rparr> (filter (\<lambda>r. user_id r \<noteq> u) (users d))"
    using assms(2) update_user_zodiac_result [of fault now d u s d'] by simp
  then show ?thesis
    using assms(1) by (auto simp: not_notified_def list_all_iff set_insort_key)
next
  case (SaveHoroscope u s p)
  then have "users d' = users d"
    using assms(2) save_horoscope_result [of fault now d u s p d'] by simp
  then show ?thesis
    using assms(1) by (simp add: not_notified_def)
next
  case GetUsersForNotification
  then have "d' = d"
    using assms(2) by (simp split: sum.splits)
  then show ?thesis
    using assms(1) by simp
qed

lemma not_notified_not_selected:
  "not_notified uid d \<Longrightarrow> get_users_for_notification fault d = Inr rows \<Longrightarrow>
   uid \<notin> fst ` set rows"
  by (auto simp: not_notified_def list_all_iff get_users_for_notification_def
           split: option.splits)

lemma distinct_users_db_exec:
  assumes "distinct (map user_id (users d))" and "db_exec fault now c d = Inr d'"
  shows "distinct (map user_id (users d'))"
proof (cases c)
  case (UpdateUserZodiac u s)
  then have "users d' = insort_key user_id
      \<lparr>user_id = u, zodiac_sign = Some s, notification_time = None,
       created_at = now, updated_at = now\<rparr> (filter (\<lambda>r. user_id r \<noteq> u) (users d))"
    using assms(2) update_user_zodiac_result [of fault now d u s d'] by simp
  then show ?thesis
    using assms(1) by (auto simp: distinct_map_insort_key distinct_map_filter)
next
  case (SaveHoroscope u s p)
  then have "users d' = users d"
    using assms(2) save_horoscope_result [of fault now d u s p d'] by simp
  then show ?thesis
    using assms(1) by simp
next
  case GetUsersForNotification
  then have "d' = d"
    using assms(2) by (simp split: sum.splits)
  then show ?thesis
    using assms(1) by simp
qed

lemma db_run_saves:
  "\<not> foreign_keys d \<Longrightarrow> list_all is_save cs \<Longrightarrow>
   length (horoscopes (db_run cs d)) = length (horoscopes d) + length cs \<and>
   users (db_run cs d) = users d"
proof (induction cs arbitrary: d)
  case Nil
  then show ?case by simp
next
  case (Cons c cs)
  from Cons.prems(2) obtain now uid sign pred
    where c: "c = (None, now, SaveHoroscope uid sign pred)"
    by (cases c rule: is_save.cases) auto
  let ?d' = "d\<lparr>horoscopes := horoscopes d @
            [\<lparr>hid = Suc (horoscopes_seq d), h_user_id = uid, h_zodiac_sign = sign,
              prediction = pred, h_created_at = now\<rparr>],
          horoscopes_seq := Suc (horoscopes_seq d)\<rparr>"
  have step: "db_run (c # cs) d = db_run cs ?d'"
    using Cons.prems(1) by (simp add: c save_horoscope_def)
  have "\<not> foreign_keys ?d'" using Cons.prems(1) by simp
  moreover have "list_all is_save cs" using Cons.prems(2) by simp
  ultimately have "length (horoscopes (db_run cs ?d')) = length (horoscopes ?d') + length cs \<and>
   users (db_run cs ?d') = users ?d'"
    by (rule Cons.IH)
  then show ?case by (simp add: step)
qed

section \<open>Lemmas about the bot\<close>







lemma generate_except_result:
  "generate_except E e w =
     (case telegram E (tick w) of
        None \<Rightarrow>
          (Inr (), w\<lparr>tick := Suc (tick w),
                     trace := trace w @ [LoggedGenerationError e, Replied apology_text]\<rparr>)
      | Some e' \<Rightarrow>
          (Inl e', w\<lparr>tick := Suc (tick w), trace := trace w @ [LoggedGenerationError e]\<rparr>))"
  by (simp add: generate_except_def and_then_def logger_error_def tg_call_def
        split: option.splits)

lemma re_match_literals_iff:
  "re_match_literals alts s \<longleftrightarrow> (\<exists>a \<in> set alts. s = a \<or> s = a @ [10])"
proof -
  have "(take (length a) s = a \<and> at_dollar (drop (length a) s)) \<longleftrightarrow> (s = a \<or> s = a @ [10])"
    for a
  proof
    assume h: "take (length a) s = a \<and> at_dollar (drop (length a) s)"
    have "s = take (length a) s @ drop (length a) s" by simp
    with h show "s = a \<or> s = a @ [10]"
      by (auto simp: at_dollar_def)
  next
    assume "s = a \<or> s = a @ [10]"
    then show "take (length a) s = a \<and> at_dollar (drop (length a) s)"
      by (auto simp: at_dollar_def)
  qed
  then show ?thesis
    by (simp add: re_match_literals_def list_ex_iff)
qed

lemma process_callback_query_unmatched:
  assumes "\<forall>a \<in> set (get_horoscope_token # ZODIAC_SIGNS). data \<noteq> a \<and> data \<noteq> a @ [10]"
  shows "process_callback_query E uid data w = (Inr (), w)"
  using assms by (auto simp: process_callback_query_def re_match_literals_iff)

lemma process_callback_query_sign:
  assumes "data \<in> set ZODIAC_SIGNS"
  shows "process_callback_query E uid data w = generate_horoscope E uid data w"
proof -
  have "\<not> re_match_literals [get_horoscope_token] data"
    using assms
    by (auto simp: re_match_literals_iff ZODIAC_SIGNS_def get_horoscope_token_def Oven_def
          Telets_def Bliznetsy_def Rak_def Lev_def Deva_def Vesy_def Skorpion_def Strelets_def
          Kozerog_def Vodoley_def Ryby_def)
  moreover have "re_match_literals ZODIAC_SIGNS data"
    using assms by (auto simp: re_match_literals_iff)
  ultimately show ?thesis
    by (simp add: process_callback_query_def)
qed

lemma history_kept_iff:
  "history_kept w w' \<longleftrightarrow> (\<exists>rows. horoscopes (store w') = horoscopes (store w) @ rows)"
  unfolding history_kept_def
  by (metis append_eq_conv_conj append_take_drop_id)

lemma history_kept_refl: "history_kept w w"
  by (simp add: history_kept_def)

lemma history_kept_trans: "history_kept w w1 \<Longrightarrow> history_kept w1 w2 \<Longrightarrow> history_kept w w2"
  by (auto simp: history_kept_iff)

lemma job_iteration_history_kept: "history_kept w (snd (job_iteration E row w))"
  unfolding history_kept_iff job_iteration_def job_try_def try_except_def and_then_def
    get_horoscope_prediction_def tg_call_def db_save_horoscope_def logger_error_def Let_def
  by (auto simp: save_horoscope_def split: sum.splits list.splits option.splits prod.splits if_splits)

lemma for_each_history_kept:
  "history_kept w (snd (for_each rows (job_iteration E) w))"
proof (induction rows arbitrary: w)
  case Nil
  show ?case by (simp add: history_kept_refl)
next
  case (Cons row rows)
  obtain r w1 where j: "job_iteration E row w = (r, w1)" by (cases "job_iteration E row w")
  have k: "history_kept w w1"
    using job_iteration_history_kept [of w E row] j by simp
  show ?case
  proof (cases r)
    case (Inl e)
    then show ?thesis using j k by simp
  next
    case (Inr u)
    then show ?thesis
      using j k Cons.IH [of w1] by (auto intro: history_kept_trans)
  qed
qed

lemma daily_horoscope_job_history_kept:
  "history_kept w (snd (daily_horoscope_job E w))"
proof -
  have "history_kept w (w\<lparr>tick := Suc (tick w)\<rparr>)"
    by (simp add: history_kept_def)
  then show ?thesis
    using for_each_history_kept [of "w\<lparr>tick := Suc (tick w)\<rparr>" _ E]
    by (auto simp: daily_horoscope_job_def and_then_def db_get_users_for_notification_def
          split: sum.splits intro: history_kept_trans)
qed

lemma process_callback_query_history_kept:
  "history_kept w (snd (process_callback_query E uid data w))"
  unfolding history_kept_iff process_callback_query_def show_zodiac_menu_def
    generate_horoscope_def generate_try_def generate_except_def try_except_def and_then_def
    get_horoscope_prediction_def tg_call_def db_save_horoscope_def db_update_user_zodiac_def
    logger_error_def Let_def
  by (auto simp: save_horoscope_def update_user_zodiac_def
      split: sum.splits list.splits option.splits prod.splits if_splits)

lemma generate_horoscope_except_reached:
  assumes "telegram E (tick w) = None" and "telegram E (tick w + 1) = None"
    and "is_Exception e"
  shows
   "((giga_chat E (tick w + 2) (user_content (Some data)) = Inl e \<or>
      giga_chat E (tick w + 2) (user_content (Some data)) = Inr [] \<and> e = IndexError) \<longrightarrow>
       generate_horoscope E uid data w =
         generate_except E e
           (w\<lparr>tick := tick w + 3,
              trace := trace w @ [Answered, EditedMessage (generating_text data) [],
                                  GigaChatCall (user_content (Some data))]\<rparr>)) \<and>
    (giga_chat E (tick w + 2) (user_content (Some data)) = Inr (pred # others) \<and>
     sqlite E (tick w + 3) = Some e \<longrightarrow>
       generate_horoscope E uid data w =
         generate_except E e
           (w\<lparr>tick := tick w + 4,
              trace := trace w @ [Answered, EditedMessage (generating_text data) [],
                                  GigaChatCall (user_content (Some data))]\<rparr>)) \<and>
    (giga_chat E (tick w + 2) (user_content (Some data)) = Inr (pred # others) \<and>
     update_user_zodiac (sqlite E (tick w + 3)) (clock E (tick w + 3)) (store w) uid data = Inr d \<and>
     sqlite E (tick w + 4) = Some e \<longrightarrow>
       generate_horoscope E uid data w =
         generate_except E e
           (w\<lparr>store := d, tick := tick w + 5,
              trace := trace w @ [Answered, EditedMessage (generating_text data) [],
                                  GigaChatCall (user_content (Some data)),
                                  Committed (UpdateUserZodiac uid data)]\<rparr>)) \<and>
    (\<forall>w3. generate_except E e w3 =
       (case telegram E (tick w3) of
          None \<Rightarrow>
            (Inr (), w3\<lparr>tick := Suc (tick w3),
                        trace := trace w3 @ [LoggedGenerationError e, Replied apology_text]\<rparr>)
        | Some e' \<Rightarrow>
            (Inl e', w3\<lparr>tick := Suc (tick w3),
                        trace := trace w3 @ [LoggedGenerationError e]\<rparr>)))"
proof -
  have t1: "telegram E (Suc (tick w)) = None"
    using assms(2) by simp
  have pre: "generate_horoscope E uid data w =
      try_except (generate_try E uid data) (generate_except E)
        (w\<lparr>tick := Suc (Suc (tick w)),
           trace := trace w @ [Answered, EditedMessage (generating_text data) []]\<rparr>)"
    using assms(1) t1
    by (simp add: generate_horoscope_def and_then_def tg_call_def)
  have a: "generate_horoscope E uid data w =
         generate_except E e
           (w\<lparr>tick := tick w + 3,
              trace := trace w @ [Answered, EditedMessage (generating_text data) [],
                                  GigaChatCall (user_content (Some data))]\<rparr>)"
    if "giga_chat E (tick w + 2) (user_content (Some data)) = Inl e \<or>
      giga_chat E (tick w + 2) (user_content (Some data)) = Inr [] \<and> e = IndexError"
    using that assms(3)
    by (auto simp: pre try_except_def generate_try_def and_then_def
          get_horoscope_prediction_def Let_def numeral_eq_Suc)
  have b: "generate_horoscope E uid data w =
         generate_except E e
           (w\<lparr>tick := tick w + 4,
              trace := trace w @ [Answered, EditedMessage (generating_text data) [],
                                  GigaChatCall (user_content (Some data))]\<rparr>)"
    if "giga_chat E (tick w + 2) (user_content (Some data)) = Inr (pred # others) \<and>
     sqlite E (tick w + 3) = Some e"
    using that assms(3)
    by (simp add: pre try_except_def generate_try_def and_then_def
          get_horoscope_prediction_def db_update_user_zodiac_def update_user_zodiac_def
          Let_def numeral_eq_Suc generate_except_result split: option.splits)
  have c: "generate_horoscope E uid data w =
         generate_except E e
           (w\<lparr>store := d, tick := tick w + 5,
              trace := trace w @ [Answered, EditedMessage (generating_text data) [],
                                  GigaChatCall (user_content (Some data)),
                                  Committed (UpdateUserZodiac uid data)]\<rparr>)"
    if h: "giga_chat E (tick w + 2) (user_content (Some data)) = Inr (pred # others) \<and>
     update_user_zodiac (sqlite E (tick w + 3)) (clock E (tick w + 3)) (store w) uid data = Inr d \<and>
     sqlite E (tick w + 4) = Some e"
  proof -
    have "save_horoscope (sqlite E (tick w + 4)) now d uid sign p = Inl e" for now sign p
      using h by (simp add: save_horoscope_def)
    then show ?thesis
      using h assms(3)
      by (simp add: pre try_except_def generate_try_def and_then_def
            get_horoscope_prediction_def db_update_user_zodiac_def db_save_horoscope_def
            Let_def numeral_eq_Suc generate_except_result split: option.splits)
  qed
  show ?thesis
    using a b c generate_except_result by blast
qed

section \<open>The claims\<close>

text \<open>
  C1 (as amended). The specification says that \<^verbatim>\<open>get_users_for_notification\<close> returns
  exactly the users with a non-empty \<^verbatim>\<open>zodiac_sign\<close>. The query selects on another column:
  when the statement executes, it returns exactly the pairs \<open>(user_id, zodiac_sign)\<close> of
  the rows whose \<^verbatim>\<open>notification_time\<close> is not NULL, whatever their sign.
\<close>

theorem get_users_for_notification_by_notification_time:
  "\<exists>rows. get_users_for_notification None d = Inr rows \<and>
     (\<forall>uid sign. (uid, sign) \<in> set rows \<longleftrightarrow>
        (\<exists>r \<in> set (users d).
           user_id r = uid \<and> zodiac_sign r = sign \<and> notification_time r \<noteq> None))"
  by (auto simp: get_users_for_notification_def)

text \<open>C1 as stated fails: a user with the sign Lev and no notification time is not
  returned, and a user with a notification time and no sign is returned.\<close>

theorem get_users_for_notification_misses_sign_holder:
  "get_users_for_notification None db_lev_only = Inr [] \<and>
   listSubscribers_spec db_lev_only = [(7, Some Lev)] \<and>
   get_users_for_notification None db_time_only = Inr [(8, None)] \<and>
   listSubscribers_spec db_time_only = []"
  by (simp add: get_users_for_notification_def listSubscribers_spec_def db_lev_only_def
        db_time_only_def Lev_def)

text \<open>
  C2. Every row that \<^verbatim>\<open>update_user_zodiac\<close> writes has \<^verbatim>\<open>notification_time\<close> NULL, also when
  the user had one before; and after any further calls of the three store methods,
  \<^verbatim>\<open>get_users_for_notification\<close> does not return that user.
\<close>

theorem update_user_zodiac_clears_notification_time:
  assumes "update_user_zodiac fault now d uid sign = Inr d1"
  shows "(\<forall>r \<in> set (users d1). user_id r = uid \<longrightarrow> notification_time r = None) \<and>
         (\<forall>cs f rows. get_users_for_notification f (db_run cs d1) = Inr rows \<longrightarrow>
            uid \<notin> fst ` set rows)"
proof -
  have n1: "not_notified uid d1"
    using assms by (rule not_notified_after_update)
  have "not_notified uid (db_run cs d1)" for cs
    by (rule db_run_invariant [where I = "not_notified uid"])
       (auto intro: not_notified_db_exec n1)
  then have "uid \<notin> fst ` set rows"
    if "get_users_for_notification f (db_run cs d1) = Inr rows" for cs f rows
    using that by (rule not_notified_not_selected)
  moreover have "\<forall>r \<in> set (users d1). user_id r = uid \<longrightarrow> notification_time r = None"
    using n1 by (auto simp: not_notified_def list_all_iff)
  ultimately show ?thesis by blast
qed

theorem update_user_zodiac_clears_notification_time_witness:
  "update_user_zodiac None 9 db_subscribed 1 Deva =
     Inr (db_subscribed\<lparr>users := [\<lparr>user_id = 1, zodiac_sign = Some Deva, notification_time = None,
                                   created_at = 9, updated_at = 9\<rparr>]\<rparr>) \<and>
   get_users_for_notification None db_subscribed = Inr [(1, Some Oven)] \<and>
   (\<exists>rows. get_users_for_notification None
       (db_run [(None, 10, SaveHoroscope 1 (Some Deva) [80])]
          (db_subscribed\<lparr>users := [\<lparr>user_id = 1, zodiac_sign = Some Deva,
             notification_time = None, created_at = 9, updated_at = 9\<rparr>]\<rparr>)) = Inr rows \<and>
      1 \<notin> fst ` set rows)"
proof -
  have h: "update_user_zodiac None 9 db_subscribed 1 Deva =
     Inr (db_subscribed\<lparr>users := [\<lparr>user_id = 1, zodiac_sign = Some Deva, notification_time = None,
                                   created_at = 9, updated_at = 9\<rparr>]\<rparr>)"
    by (simp add: update_user_zodiac_def db_subscribed_def)
  have g: "get_users_for_notification None db_subscribed = Inr [(1, Some Oven)]"
    by (simp add: get_users_for_notification_def db_subscribed_def)
  have r: "get_users_for_notification None
       (db_run [(None, 10, SaveHoroscope 1 (Some Deva) [80])]
          (db_subscribed\<lparr>users := [\<lparr>user_id = 1, zodiac_sign = Some Deva,
             notification_time = None, created_at = 9, updated_at = 9\<rparr>]\<rparr>)) = Inr []"
    by (simp add: get_users_for_notification_def save_horoscope_def db_subscribed_def)
  have "1 \<notin> fst ` set ([] :: (int \<times> ustring option) list)"
    using update_user_zodiac_clears_notification_time [OF h] r by blast
  with h g r show ?thesis by blast
qed

text \<open>
  C3. The specification says that \<^verbatim>\<open>update_user_zodiac\<close> on a user that has a row replaces
  only \<^verbatim>\<open>zodiac_sign\<close> and \<^verbatim>\<open>updated_at\<close>, and leaves \<^verbatim>\<open>created_at\<close> and \<^verbatim>\<open>notification_time\<close>
  as they were. The statement is INSERT OR REPLACE with three named columns, and the code
  does otherwise. On a new store, user 1 selects Oven at time 5 and Deva at time 9: the
  row's \<^verbatim>\<open>created_at\<close> is 5 after the first call and 9 after the second. On a store where
  user 1 has the notification time \<^verbatim>\<open>09:00\<close> and \<^verbatim>\<open>created_at\<close> 5, the call at time 9
  leaves the row with no notification time and \<^verbatim>\<open>created_at\<close> 9.
\<close>

theorem update_user_zodiac_resets_row:
  "map created_at (users (db_run [(None, 5, UpdateUserZodiac 1 Oven)]
      (DatabaseManager_init None))) = [5] \<and>
   map created_at (users (db_run [(None, 5, UpdateUserZodiac 1 Oven),
      (None, 9, UpdateUserZodiac 1 Deva)] (DatabaseManager_init None))) = [9] \<and>
   map updated_at (users (db_run [(None, 5, UpdateUserZodiac 1 Oven),
      (None, 9, UpdateUserZodiac 1 Deva)] (DatabaseManager_init None))) = [9] \<and>
   map notification_time (users db_subscribed) = [Some [48, 57, 58, 48, 48]] \<and>
   map created_at (users db_subscribed) = [5] \<and>
   update_user_zodiac None 9 db_subscribed 1 Deva =
     Inr (db_subscribed\<lparr>users := [\<lparr>user_id = 1, zodiac_sign = Some Deva, notification_time = None,
                                   created_at = 9, updated_at = 9\<rparr>]\<rparr>)"
  by (simp add: update_user_zodiac_def db_subscribed_def DatabaseManager_init_def)



text \<open>
  C5. Two calls of \<^verbatim>\<open>update_user_zodiac\<close> for the same user leave exactly one row for that
  user, with the sign of the second call; and no run of store calls creates a second row
  for a \<^verbatim>\<open>user_id\<close>: distinct keys stay distinct, and a store that started empty always
  has distinct keys.
\<close>

theorem update_user_zodiac_twice_one_row:
  "(\<exists>d1 d2 r. update_user_zodiac None t1 d uid s1 = Inr d1 \<and>
      update_user_zodiac None t2 d1 uid s2 = Inr d2 \<and>
      filter (\<lambda>r. user_id r = uid) (users d2) = [r] \<and> zodiac_sign r = Some s2) \<and>
   (distinct (map user_id (users d)) \<longrightarrow> distinct (map user_id (users (db_run cs d)))) \<and>
   distinct (map user_id (users (db_run cs (DatabaseManager_init None))))"
proof -
  have a: "\<exists>d1 d2 r. update_user_zodiac None t1 d uid s1 = Inr d1 \<and>
      update_user_zodiac None t2 d1 uid s2 = Inr d2 \<and>
      filter (\<lambda>r. user_id r = uid) (users d2) = [r] \<and> zodiac_sign r = Some s2"
    by (simp add: update_user_zodiac_def filter_insort_key_other filter_insort_key_single)
  have b: "distinct (map user_id (users (db_run cs d')))"
    if "distinct (map user_id (users d'))" for d'
    by (rule db_run_invariant [where I = "\<lambda>d. distinct (map user_id (users d))"])
       (auto intro: distinct_users_db_exec that)
  have c: "distinct (map user_id (users (DatabaseManager_init None)))"
    by (simp add: DatabaseManager_init_def)
  show ?thesis
    using a b [of d] b [OF c] by blast
qed

theorem update_user_zodiac_twice_one_row_witness:
  "distinct (map user_id (users db_subscribed)) \<and>
   distinct (map user_id (users (db_run
      [(None, 6, UpdateUserZodiac 2 Lev), (None, 7, UpdateUserZodiac 1 Deva),
       (None, 8, UpdateUserZodiac 2 Rak)] db_subscribed))) \<and>
   map user_id (users (db_run
      [(None, 6, UpdateUserZodiac 2 Lev), (None, 7, UpdateUserZodiac 1 Deva),
       (None, 8, UpdateUserZodiac 2 Rak)] db_subscribed)) = [1, 2]"
proof -
  have h: "distinct (map user_id (users db_subscribed))"
    by (simp add: db_subscribed_def)
  have "distinct (map user_id (users (db_run
      [(None, 6, UpdateUserZodiac 2 Lev), (None, 7, UpdateUserZodiac 1 Deva),
       (None, 8, UpdateUserZodiac 2 Rak)] db_subscribed)))"
    using update_user_zodiac_twice_one_row [of 0 db_subscribed 1 Oven 1 Deva
      "[(None, 6, UpdateUserZodiac 2 Lev), (None, 7, UpdateUserZodiac 1 Deva),
        (None, 8, UpdateUserZodiac 2 Rak)]"] h
    by blast
  moreover have "map user_id (users (db_run
      [(None, 6, UpdateUserZodiac 2 Lev), (None, 7, UpdateUserZodiac 1 Deva),
       (None, 8, UpdateUserZodiac 2 Rak)] db_subscribed)) = [1, 2]"
    by (simp add: update_user_zodiac_def db_subscribed_def)
  ultimately show ?thesis using h by blast
qed

text \<open>
  C6 (as amended). A failure of \<^verbatim>\<open>query.answer\<close> or of the placeholder edit, the two transport
  calls before the \<^verbatim>\<open>try\<close> block, leaves \<^verbatim>\<open>generate_horoscope\<close> uncaught, with nothing
  generated, written, logged or apologised. Once the \<^verbatim>\<open>try\<close> block is reached, when
  generation, \<^verbatim>\<open>update_user_zodiac\<close> or \<^verbatim>\<open>save_horoscope\<close> fails with an \<^verbatim>\<open>Exception\<close>, the
  handler goes on as its \<^verbatim>\<open>except\<close> branch in the state the failing step left: nothing is
  written to the store after that step (nothing at all when generation or the preference
  write failed, the preference only when the history write failed), the error is logged
  and the apology is sent. The handler returns normally when the apology is delivered;
  when that delivery fails too, its error leaves the handler.
\<close>

theorem generate_horoscope_failure:
  "(telegram E (tick w) = Some e' \<longrightarrow>
      generate_horoscope E uid data w = (Inl e', w\<lparr>tick := tick w + 1\<rparr>)) \<and>
   (telegram E (tick w) = None \<and> telegram E (tick w + 1) = Some e' \<longrightarrow>
      generate_horoscope E uid data w =
        (Inl e', w\<lparr>tick := tick w + 2, trace := trace w @ [Answered]\<rparr>)) \<and>
   (telegram E (tick w) = None \<and> telegram E (tick w + 1) = None \<and> is_Exception e \<longrightarrow>
    ((giga_chat E (tick w + 2) (user_content (Some data)) = Inl e \<or>
      giga_chat E (tick w + 2) (user_content (Some data)) = Inr [] \<and> e = IndexError) \<longrightarrow>
       generate_horoscope E uid data w =
         generate_except E e
           (w\<lparr>tick := tick w + 3,
              trace := trace w @ [Answered, EditedMessage (generating_text data) [],
                                  GigaChatCall (user_content (Some data))]\<rparr>)) \<and>
    (giga_chat E (tick w + 2) (user_content (Some data)) = Inr (pred # others) \<and>
     sqlite E (tick w + 3) = Some e \<longrightarrow>
       generate_horoscope E uid data w =
         generate_except E e
           (w\<lparr>tick := tick w + 4,
              trace := trace w @ [Answered, EditedMessage (generating_text data) [],
                                  GigaChatCall (user_content (Some data))]\<rparr>)) \<and>
    (giga_chat E (tick w + 2) (user_content (Some data)) = Inr (pred # others) \<and>
     update_user_zodiac (sqlite E (tick w + 3)) (clock E (tick w + 3)) (store w) uid data = Inr d \<and>
     sqlite E (tick w + 4) = Some e \<longrightarrow>
       generate_horoscope E uid data w =
         generate_except E e
           (w\<lparr>store := d, tick := tick w + 5,
              trace := trace w @ [Answered, EditedMessage (generating_text data) [],
                                  GigaChatCall (user_content (Some data)),
                                  Committed (UpdateUserZodiac uid data)]\<rparr>))) \<and>
   (\<forall>w3. generate_except E e w3 =
       (case telegram E (tick w3) of
          None \<Rightarrow>
            (Inr (), w3\<lparr>tick := Suc (tick w3),
                        trace := trace w3 @ [LoggedGenerationError e, Replied apology_text]\<rparr>)
        | Some e' \<Rightarrow>
            (Inl e', w3\<lparr>tick := Suc (tick w3),
                        trace := trace w3 @ [LoggedGenerationError e]\<rparr>)))"
proof -
  have a: "generate_horoscope E uid data w = (Inl e', w\<lparr>tick := tick w + 1\<rparr>)"
    if "telegram E (tick w) = Some e'"
    using that by (simp add: generate_horoscope_def and_then_def tg_call_def)
  have b: "generate_horoscope E uid data w =
        (Inl e', w\<lparr>tick := tick w + 2, trace := trace w @ [Answered]\<rparr>)"
    if "telegram E (tick w) = None \<and> telegram E (tick w + 1) = Some e'"
    using that by (simp add: generate_horoscope_def and_then_def tg_call_def numeral_eq_Suc)
  show ?thesis
    using a b generate_horoscope_except_reached [of E w e data uid pred others d]
      generate_except_result
    by blast
qed

theorem generate_horoscope_failure_witness:
  "generate_horoscope env_answer_fails 5 Ryby world_fresh =
     (Inl DeliveryError, \<lparr>store = DatabaseManager_init None, tick = 1, trace = []\<rparr>) \<and>
   generate_horoscope env_send_fails 5 Ryby world_fresh =
     (Inl DeliveryError, \<lparr>store = DatabaseManager_init None, tick = 2, trace = [Answered]\<rparr>) \<and>
   generate_horoscope env_ryby_fails 5 Ryby world_fresh =
     (Inr (),
      \<lparr>store = DatabaseManager_init None, tick = 4,
       trace = [Answered, EditedMessage (generating_text Ryby) [],
                GigaChatCall (user_content (Some Ryby)),
                LoggedGenerationError GenerationError, Replied apology_text]\<rparr>) \<and>
   generate_horoscope env_update_fails 5 Ryby world_fresh =
     (Inr (),
      \<lparr>store = DatabaseManager_init None, tick = 5,
       trace = [Answered, EditedMessage (generating_text Ryby) [],
                GigaChatCall (user_content (Some Ryby)),
                LoggedGenerationError StorageError, Replied apology_text]\<rparr>) \<and>
   generate_horoscope env_second_write_fails 5 Ryby world_fresh =
     (Inr (),
      \<lparr>store = (DatabaseManager_init None)\<lparr>users :=
                 [\<lparr>user_id = 5, zodiac_sign = Some Ryby, notification_time = None,
                   created_at = 3, updated_at = 3\<rparr>]\<rparr>,
       tick = 6,
       trace = [Answered, EditedMessage (generating_text Ryby) [],
                GigaChatCall (user_content (Some Ryby)),
                Committed (UpdateUserZodiac 5 Ryby),
                LoggedGenerationError StorageError, Replied apology_text]\<rparr>)"
proof -
  have t0: "telegram env_answer_fails (tick world_fresh) = Some DeliveryError"
    by (simp add: env_answer_fails_def world_fresh_def)
  have t1: "telegram env_send_fails (tick world_fresh) = None \<and>
      telegram env_send_fails (tick world_fresh + 1) = Some DeliveryError"
    by (simp add: env_send_fails_def world_fresh_def)
  have t2: "telegram env_ryby_fails (tick world_fresh) = None \<and>
      telegram env_ryby_fails (tick world_fresh + 1) = None \<and> is_Exception GenerationError"
    by (simp add: env_ryby_fails_def)
  have t3: "telegram env_update_fails (tick world_fresh) = None \<and>
      telegram env_update_fails (tick world_fresh + 1) = None \<and> is_Exception StorageError"
    by (simp add: env_update_fails_def)
  have t4: "telegram env_second_write_fails (tick world_fresh) = None \<and>
      telegram env_second_write_fails (tick world_fresh + 1) = None \<and>
      is_Exception StorageError"
    by (simp add: env_second_write_fails_def)
  have g2: "giga_chat env_ryby_fails (tick world_fresh + 2) (user_content (Some Ryby)) =
      Inl GenerationError"
    by (simp add: env_ryby_fails_def)
  have g3: "giga_chat env_update_fails (tick world_fresh + 2) (user_content (Some Ryby)) =
      Inr ([80] # []) \<and>
    sqlite env_update_fails (tick world_fresh + 3) = Some StorageError"
    by (simp add: env_update_fails_def world_fresh_def)
  have g4: "giga_chat env_second_write_fails (tick world_fresh + 2) (user_content (Some Ryby)) =
      Inr ([80] # []) \<and>
    update_user_zodiac (sqlite env_second_write_fails (tick world_fresh + 3))
      (clock env_second_write_fails (tick world_fresh + 3)) (store world_fresh) 5 Ryby =
      Inr ((DatabaseManager_init None)\<lparr>users :=
                 [\<lparr>user_id = 5, zodiac_sign = Some Ryby, notification_time = None,
                   created_at = 3, updated_at = 3\<rparr>]\<rparr>) \<and>
    sqlite env_second_write_fails (tick world_fresh + 4) = Some StorageError"
    by (simp add: env_second_write_fails_def world_fresh_def update_user_zodiac_def
          DatabaseManager_init_def)
  note r0 = generate_horoscope_failure [where E = env_answer_fails and w = world_fresh and
      e' = DeliveryError and e = StorageError and data = Ryby and uid = 5 and pred = "[]" and
      others = "[]" and d = "store world_fresh"]
  note r1 = generate_horoscope_failure [where E = env_send_fails and w = world_fresh and
      e' = DeliveryError and e = StorageError and data = Ryby and uid = 5 and pred = "[]" and
      others = "[]" and d = "store world_fresh"]
  note r2 = generate_horoscope_failure [where E = env_ryby_fails and w = world_fresh and
      e' = DeliveryError and e = GenerationError and data = Ryby and uid = 5 and pred = "[]" and
      others = "[]" and d = "store world_fresh"]
  note r3 = generate_horoscope_failure [where E = env_update_fails and w = world_fresh and
      e' = DeliveryError and e = StorageError and data = Ryby and uid = 5 and pred = "[80]" and
      others = "[]" and d = "store world_fresh"]
  note r4 = generate_horoscope_failure [where E = env_second_write_fails and w = world_fresh and
      e' = DeliveryError and e = StorageError and data = Ryby and uid = 5 and pred = "[80]" and
      others = "[]" and
      d = "(DatabaseManager_init None)\<lparr>users :=
                 [\<lparr>user_id = 5, zodiac_sign = Some Ryby, notification_time = None,
                   created_at = 3, updated_at = 3\<rparr>]\<rparr>"]
  have 0: "generate_horoscope env_answer_fails 5 Ryby world_fresh =
     (Inl DeliveryError, \<lparr>store = DatabaseManager_init None, tick = 1, trace = []\<rparr>)"
    using r0 t0 by (simp add: world_fresh_def)
  have 1: "generate_horoscope env_send_fails 5 Ryby world_fresh =
     (Inl DeliveryError, \<lparr>store = DatabaseManager_init None, tick = 2, trace = [Answered]\<rparr>)"
    using r1 t1 by (simp add: world_fresh_def)
  have 2: "generate_horoscope env_ryby_fails 5 Ryby world_fresh =
     (Inr (),
      \<lparr>store = DatabaseManager_init None, tick = 4,
       trace = [Answered, EditedMessage (generating_text Ryby) [],
                GigaChatCall (user_content (Some Ryby)),
                LoggedGenerationError GenerationError, Replied apology_text]\<rparr>)"
    using r2 t2 g2 by (simp add: world_fresh_def env_ryby_fails_def)
  have 3: "generate_horoscope env_update_fails 5 Ryby world_fresh =
     (Inr (),
      \<lparr>store = DatabaseManager_init None, tick = 5,
       trace = [Answered, EditedMessage (generating_text Ryby) [],
                GigaChatCall (user_content (Some Ryby)),
                LoggedGenerationError StorageError, Replied apology_text]\<rparr>)"
    using r3 t3 g3 by (simp add: world_fresh_def env_update_fails_def)
  have 4: "generate_horoscope env_second_write_fails 5 Ryby world_fresh =
     (Inr (),
      \<lparr>store = (DatabaseManager_init None)\<lparr>users :=
                 [\<lparr>user_id = 5, zodiac_sign = Some Ryby, notification_time = None,
                   created_at = 3, updated_at = 3\<rparr>]\<rparr>,
       tick = 6,
       trace = [Answered, EditedMessage (generating_text Ryby) [],
                GigaChatCall (user_content (Some Ryby)),
                Committed (UpdateUserZodiac 5 Ryby),
                LoggedGenerationError StorageError, Replied apology_text]\<rparr>)"
    using r4 t4 g4 by (simp add: world_fresh_def env_second_write_fails_def)
  show ?thesis
    using 0 1 2 3 4 by blast
qed

text \<open>C6 as stated fails: generation fails, the error is logged, the delivery of the apology
  fails as well, and the handler ends with that delivery error instead of returning.\<close>

theorem generate_horoscope_apology_undelivered:
  "giga_chat env_apology_fails 2 (user_content (Some Oven)) = Inl GenerationError \<and>
   generate_horoscope env_apology_fails 5 Oven world_fresh =
     (Inl DeliveryError,
      \<lparr>store = DatabaseManager_init None, tick = 4,
       trace = [Answered, EditedMessage (generating_text Oven) [],
                GigaChatCall (user_content (Some Oven)),
                LoggedGenerationError GenerationError]\<rparr>)"
  by (simp add: env_apology_fails_def world_fresh_def generate_horoscope_def and_then_def
        tg_call_def try_except_def generate_try_def generate_except_def logger_error_def
        get_horoscope_prediction_def Let_def)

text \<open>
  C7. One iteration of the broadcast, for every behaviour of the collaborators. Either it
  leaves the store as it was and commits no store write; or generation returned a
  prediction, the delivery succeeded, the iteration returns normally, its events are
  exactly the generation request, the message with that prediction sent to the user and
  the committed history row, in this order, and the store is the old one with the row of
  that prediction appended. So a history row is written only after generation and
  delivery succeeded, and after the delivery. When all three steps succeed this is what
  happens. When generation and delivery succeed and \<^verbatim>\<open>save_horoscope\<close> fails, the message
  has been sent, the failure is logged and no row is recorded. When generation fails,
  nothing is sent and nothing recorded; when the delivery fails, nothing is recorded.
\<close>

theorem job_iteration_sends_before_saving:
  "(let r = fst (job_iteration E (uid, sign) w); w' = snd (job_iteration E (uid, sign) w) in
      \<exists>evs. trace w' = trace w @ evs \<and>
        (store w' = store w \<and> store_writes evs = [] \<or>
         (\<exists>pred others.
            giga_chat E (tick w) (user_content sign) = Inr (pred # others) \<and>
            telegram E (tick w + 1) = None \<and> sqlite E (tick w + 2) = None \<and>
            r = Inr () \<and>
            evs = [GigaChatCall (user_content sign),
                   SentMessage uid (daily_text sign pred),
                   Committed (SaveHoroscope uid sign pred)] \<and>
            store w' =
              (store w)\<lparr>horoscopes := horoscopes (store w) @
                  [\<lparr>hid = Suc (horoscopes_seq (store w)), h_user_id = uid,
                    h_zodiac_sign = sign, prediction = pred,
                    h_created_at = clock E (tick w + 2)\<rparr>],
                horoscopes_seq := Suc (horoscopes_seq (store w))\<rparr>))) \<and>
   (giga_chat E (tick w) (user_content sign) = Inr (pred # others) \<and>
    telegram E (tick w + 1) = None \<and> sqlite E (tick w + 2) = None \<and>
    (foreign_keys (store w) \<longrightarrow> uid \<in> set (map user_id (users (store w)))) \<longrightarrow>
      job_iteration E (uid, sign) w =
        (Inr (),
         w\<lparr>store :=
             (store w)\<lparr>horoscopes := horoscopes (store w) @
                  [\<lparr>hid = Suc (horoscopes_seq (store w)), h_user_id = uid,
                    h_zodiac_sign = sign, prediction = pred,
                    h_created_at = clock E (tick w + 2)\<rparr>],
                horoscopes_seq := Suc (horoscopes_seq (store w))\<rparr>,
           tick := tick w + 3,
           trace := trace w @
             [GigaChatCall (user_content sign), SentMessage uid (daily_text sign pred),
              Committed (SaveHoroscope uid sign pred)]\<rparr>)) \<and>
   (giga_chat E (tick w) (user_content sign) = Inr (pred # others) \<and>
    telegram E (tick w + 1) = None \<and>
    save_horoscope (sqlite E (tick w + 2)) (clock E (tick w + 2)) (store w) uid sign pred = Inl e \<and>
    is_Exception e \<longrightarrow>
      job_iteration E (uid, sign) w =
        (Inr (),
         w\<lparr>tick := tick w + 3,
           trace := trace w @
             [GigaChatCall (user_content sign), SentMessage uid (daily_text sign pred),
              LoggedSendError uid e]\<rparr>)) \<and>
   ((giga_chat E (tick w) (user_content sign) = Inl e \<or>
     giga_chat E (tick w) (user_content sign) = Inr [] \<and> e = IndexError) \<and>
    is_Exception e \<longrightarrow>
      job_iteration E (uid, sign) w =
        (Inr (),
         w\<lparr>tick := tick w + 1,
           trace := trace w @ [GigaChatCall (user_content sign), LoggedSendError uid e]\<rparr>)) \<and>
   (giga_chat E (tick w) (user_content sign) = Inr (pred # others) \<and>
    telegram E (tick w + 1) = Some e \<and> is_Exception e \<longrightarrow>
      job_iteration E (uid, sign) w =
        (Inr (),
         w\<lparr>tick := tick w + 2,
           trace := trace w @ [GigaChatCall (user_content sign), LoggedSendError uid e]\<rparr>))"
proof (intro conjI impI)
  show "let r = fst (job_iteration E (uid, sign) w); w' = snd (job_iteration E (uid, sign) w) in
      \<exists>evs. trace w' = trace w @ evs \<and>
        (store w' = store w \<and> store_writes evs = [] \<or>
         (\<exists>pred others.
            giga_chat E (tick w) (user_content sign) = Inr (pred # others) \<and>
            telegram E (tick w + 1) = None \<and> sqlite E (tick w + 2) = None \<and>
            r = Inr () \<and>
            evs = [GigaChatCall (user_content sign),
                   SentMessage uid (daily_text sign pred),
                   Committed (SaveHoroscope uid sign pred)] \<and>
            store w' =
              (store w)\<lparr>horoscopes := horoscopes (store w) @
                  [\<lparr>hid = Suc (horoscopes_seq (store w)), h_user_id = uid,
                    h_zodiac_sign = sign, prediction = pred,
                    h_created_at = clock E (tick w + 2)\<rparr>],
                horoscopes_seq := Suc (horoscopes_seq (store w))\<rparr>))"
    unfolding job_iteration_def job_try_def try_except_def and_then_def
      get_horoscope_prediction_def tg_call_def db_save_horoscope_def logger_error_def Let_def
    by (auto simp: save_horoscope_def
          split: sum.splits list.splits option.splits prod.splits if_splits)
next
  assume "giga_chat E (tick w) (user_content sign) = Inr (pred # others) \<and>
    telegram E (tick w + 1) = None \<and> sqlite E (tick w + 2) = None \<and>
    (foreign_keys (store w) \<longrightarrow> uid \<in> set (map user_id (users (store w))))"
  then show "job_iteration E (uid, sign) w =
        (Inr (),
         w\<lparr>store :=
             (store w)\<lparr>horoscopes := horoscopes (store w) @
                  [\<lparr>hid = Suc (horoscopes_seq (store w)), h_user_id = uid,
                    h_zodiac_sign = sign, prediction = pred,
                    h_created_at = clock E (tick w + 2)\<rparr>],
                horoscopes_seq := Suc (horoscopes_seq (store w))\<rparr>,
           tick := tick w + 3,
           trace := trace w @
             [GigaChatCall (user_content sign), SentMessage uid (daily_text sign pred),
              Committed (SaveHoroscope uid sign pred)]\<rparr>)"
    by (auto simp: job_iteration_def job_try_def try_except_def and_then_def
          get_horoscope_prediction_def tg_call_def db_save_horoscope_def logger_error_def
          save_horoscope_def Let_def numeral_eq_Suc)
next
  assume "giga_chat E (tick w) (user_content sign) = Inr (pred # others) \<and>
    telegram E (tick w + 1) = None \<and>
    save_horoscope (sqlite E (tick w + 2)) (clock E (tick w + 2)) (store w) uid sign pred = Inl e \<and>
    is_Exception e"
  then show "job_iteration E (uid, sign) w =
        (Inr (),
         w\<lparr>tick := tick w + 3,
           trace := trace w @
             [GigaChatCall (user_content sign), SentMessage uid (daily_text sign pred),
              LoggedSendError uid e]\<rparr>)"
    by (simp add: job_iteration_def job_try_def try_except_def and_then_def
          get_horoscope_prediction_def tg_call_def db_save_horoscope_def logger_error_def
          Let_def numeral_eq_Suc)
next
  assume "(giga_chat E (tick w) (user_content sign) = Inl e \<or>
     giga_chat E (tick w) (user_content sign) = Inr [] \<and> e = IndexError) \<and>
    is_Exception e"
  then show "job_iteration E (uid, sign) w =
        (Inr (),
         w\<lparr>tick := tick w + 1,
           trace := trace w @ [GigaChatCall (user_content sign), LoggedSendError uid e]\<rparr>)"
    by (auto simp: job_iteration_def job_try_def try_except_def and_then_def
          get_horoscope_prediction_def logger_error_def Let_def)
next
  assume "giga_chat E (tick w) (user_content sign) = Inr (pred # others) \<and>
    telegram E (tick w + 1) = Some e \<and> is_Exception e"
  then show "job_iteration E (uid, sign) w =
        (Inr (),
         w\<lparr>tick := tick w + 2,
           trace := trace w @ [GigaChatCall (user_content sign), LoggedSendError uid e]\<rparr>)"
    by (simp add: job_iteration_def job_try_def try_except_def and_then_def
          get_horoscope_prediction_def tg_call_def logger_error_def Let_def numeral_eq_Suc)
qed

theorem job_iteration_sends_before_saving_witness:
  "job_iteration env_all_ok (2, Some Telets)
       \<lparr>store = db_two_subscribers, tick = 0, trace = []\<rparr> =
     (Inr (),
      \<lparr>store = db_two_subscribers\<lparr>horoscopes :=
                [\<lparr>hid = 1, h_user_id = 2, h_zodiac_sign = Some Telets, prediction = [80],
                  h_created_at = 2\<rparr>],
              horoscopes_seq := 1\<rparr>,
       tick = 3,
       trace = [GigaChatCall (user_content (Some Telets)),
                SentMessage 2 (daily_text (Some Telets) [80]),
                Committed (SaveHoroscope 2 (Some Telets) [80])]\<rparr>) \<and>
   job_iteration env_save_fails (2, Some Telets)
       \<lparr>store = db_two_subscribers, tick = 0, trace = []\<rparr> =
     (Inr (),
      \<lparr>store = db_two_subscribers, tick = 3,
       trace = [GigaChatCall (user_content (Some Telets)),
                SentMessage 2 (daily_text (Some Telets) [80]),
                LoggedSendError 2 StorageError]\<rparr>) \<and>
   job_iteration env_ryby_fails (1, Some Ryby)
       \<lparr>store = db_two_subscribers, tick = 0, trace = []\<rparr> =
     (Inr (),
      \<lparr>store = db_two_subscribers, tick = 1,
       trace = [GigaChatCall (user_content (Some Ryby)),
                LoggedSendError 1 GenerationError]\<rparr>) \<and>
   job_iteration env_send_fails (2, Some Telets)
       \<lparr>store = db_two_subscribers, tick = 0, trace = []\<rparr> =
     (Inr (),
      \<lparr>store = db_two_subscribers, tick = 2,
       trace = [GigaChatCall (user_content (Some Telets)),
                LoggedSendError 2 DeliveryError]\<rparr>)"
proof -
  let ?w = "\<lparr>store = db_two_subscribers, tick = 0, trace = []\<rparr>"
  have h1: "giga_chat env_all_ok (tick ?w) (user_content (Some Telets)) = Inr ([80] # []) \<and>
    telegram env_all_ok (tick ?w + 1) = None \<and> sqlite env_all_ok (tick ?w + 2) = None \<and>
    (foreign_keys (store ?w) \<longrightarrow> 2 \<in> set (map user_id (users (store ?w))))"
    by (simp add: env_all_ok_def db_two_subscribers_def)
  have h2: "giga_chat env_save_fails (tick ?w) (user_content (Some Telets)) = Inr ([80] # []) \<and>
    telegram env_save_fails (tick ?w + 1) = None \<and>
    save_horoscope (sqlite env_save_fails (tick ?w + 2)) (clock env_save_fails (tick ?w + 2))
      (store ?w) 2 (Some Telets) [80] = Inl StorageError \<and>
    is_Exception StorageError"
    by (simp add: env_save_fails_def save_horoscope_def)
  have h3: "(giga_chat env_ryby_fails (tick ?w) (user_content (Some Ryby)) = Inl GenerationError \<or>
     giga_chat env_ryby_fails (tick ?w) (user_content (Some Ryby)) = Inr [] \<and>
     GenerationError = IndexError) \<and>
    is_Exception GenerationError"
    by (simp add: env_ryby_fails_def)
  have h4: "giga_chat env_send_fails (tick ?w) (user_content (Some Telets)) = Inr ([80] # []) \<and>
    telegram env_send_fails (tick ?w + 1) = Some DeliveryError \<and> is_Exception DeliveryError"
    by (simp add: env_send_fails_def)
  note r1 = job_iteration_sends_before_saving [where E = env_all_ok and uid = 2 and
      sign = "Some Telets" and w = ?w and pred = "[80]" and others = "[]" and e = StorageError]
  note r2 = job_iteration_sends_before_saving [where E = env_save_fails and uid = 2 and
      sign = "Some Telets" and w = ?w and pred = "[80]" and others = "[]" and e = StorageError]
  note r3 = job_iteration_sends_before_saving [where E = env_ryby_fails and uid = 1 and
      sign = "Some Ryby" and w = ?w and pred = "[80]" and others = "[]" and e = GenerationError]
  note r4 = job_iteration_sends_before_saving [where E = env_send_fails and uid = 2 and
      sign = "Some Telets" and w = ?w and pred = "[80]" and others = "[]" and e = DeliveryError]
  have 1: "job_iteration env_all_ok (2, Some Telets) ?w =
     (Inr (),
      \<lparr>store = db_two_subscribers\<lparr>horoscopes :=
                [\<lparr>hid = 1, h_user_id = 2, h_zodiac_sign = Some Telets, prediction = [80],
                  h_created_at = 2\<rparr>],
              horoscopes_seq := 1\<rparr>,
       tick = 3,
       trace = [GigaChatCall (user_content (Some Telets)),
                SentMessage 2 (daily_text (Some Telets) [80]),
                Committed (SaveHoroscope 2 (Some Telets) [80])]\<rparr>)"
    using conjunct1 [OF conjunct2 [OF r1]] h1
    by (simp add: env_all_ok_def db_two_subscribers_def)
  have 2: "job_iteration env_save_fails (2, Some Telets) ?w =
     (Inr (),
      \<lparr>store = db_two_subscribers, tick = 3,
       trace = [GigaChatCall (user_content (Some Telets)),
                SentMessage 2 (daily_text (Some Telets) [80]),
                LoggedSendError 2 StorageError]\<rparr>)"
    using conjunct1 [OF conjunct2 [OF conjunct2 [OF r2]]] h2 by simp
  have 3: "job_iteration env_ryby_fails (1, Some Ryby) ?w =
     (Inr (),
      \<lparr>store = db_two_subscribers, tick = 1,
       trace = [GigaChatCall (user_content (Some Ryby)),
                LoggedSendError 1 GenerationError]\<rparr>)"
    using conjunct1 [OF conjunct2 [OF conjunct2 [OF conjunct2 [OF r3]]]] h3 by simp
  have 4: "job_iteration env_send_fails (2, Some Telets) ?w =
     (Inr (),
      \<lparr>store = db_two_subscribers, tick = 2,
       trace = [GigaChatCall (user_content (Some Telets)),
                LoggedSendError 2 DeliveryError]\<rparr>)"
    using conjunct2 [OF conjunct2 [OF conjunct2 [OF conjunct2 [OF r4]]]] h4 by simp
  show ?thesis
    using 1 2 3 4 by blast
qed

text \<open>
  C8. The history is append-only: after any run of store calls the old \<^verbatim>\<open>horoscopes\<close> rows
  are still there, unchanged and in place, followed by the new ones. A run of N executed
  \<^verbatim>\<open>save_horoscope\<close> calls adds exactly N rows (N rows in all on a store that started
  empty) and changes neither the \<^verbatim>\<open>users\<close> table nor the result of
  \<^verbatim>\<open>get_users_for_notification\<close>. The handling of a callback query and the daily job, whatever
  the collaborators do, keep the old history rows as well.
\<close>

theorem horoscopes_append_only:
  "(\<exists>rows. horoscopes (db_run cs d) = horoscopes d @ rows) \<and>
   (\<not> foreign_keys d \<and> list_all is_save cs \<longrightarrow>
      length (horoscopes (db_run cs d)) = length (horoscopes d) + length cs \<and>
      users (db_run cs d) = users d \<and>
      get_users_for_notification f (db_run cs d) = get_users_for_notification f d) \<and>
   (list_all is_save cs \<longrightarrow>
      length (horoscopes (db_run cs (DatabaseManager_init None))) = length cs) \<and>
   history_kept w (snd (process_callback_query E uid data w)) \<and>
   history_kept w (snd (daily_horoscope_job E w))"
proof -
  have "length (horoscopes (db_run cs (DatabaseManager_init None))) = length cs"
    if "list_all is_save cs"
    using db_run_saves [of "DatabaseManager_init None" cs] that
    by (simp add: DatabaseManager_init_def)
  moreover have "get_users_for_notification f (db_run cs d) = get_users_for_notification f d"
    if "users (db_run cs d) = users d"
    using that by (simp add: get_users_for_notification_def split: option.splits)
  ultimately show ?thesis
    using db_run_horoscopes [of cs d] db_run_saves [of d cs]
      process_callback_query_history_kept [of w E uid data]
      daily_horoscope_job_history_kept [of w E]
    by blast
qed

theorem horoscopes_append_only_witness:
  "\<not> foreign_keys db_subscribed \<and>
   list_all is_save [(None, 6, SaveHoroscope 1 (Some Oven) [80]),
                     (None, 7, SaveHoroscope 33 None [81])] \<and>
   length (horoscopes (db_run [(None, 6, SaveHoroscope 1 (Some Oven) [80]),
                     (None, 7, SaveHoroscope 33 None [81])] db_subscribed)) = 2 \<and>
   users (db_run [(None, 6, SaveHoroscope 1 (Some Oven) [80]),
                     (None, 7, SaveHoroscope 33 None [81])] db_subscribed) = users db_subscribed"
proof -
  have h: "\<not> foreign_keys db_subscribed \<and>
   list_all is_save [(None, 6, SaveHoroscope 1 (Some Oven) [80]),
                     (None, 7, SaveHoroscope 33 None [81])]"
    by (simp add: db_subscribed_def)
  have l: "length (horoscopes db_subscribed) = 0"
    by (simp add: db_subscribed_def)
  show ?thesis
    using h l horoscopes_append_only [of "[(None, 6, SaveHoroscope 1 (Some Oven) [80]),
                     (None, 7, SaveHoroscope 33 None [81])]" db_subscribed None]
    by simp
qed

text \<open>
  C9. The specification says that a callback token that is not one of the 12 signs (nor
  the menu token) never reaches generation and storage. The token made of the sign Oven
  followed by a newline is not one of the 12 signs, and the dispatch runs
  \<^verbatim>\<open>generate_horoscope\<close> on it: a generation is requested, a preference row and a history
  row are written with that token as the sign.
\<close>

theorem process_callback_query_sign_with_newline:
  "Oven @ [10] \<notin> set ZODIAC_SIGNS \<and> Oven @ [10] \<noteq> get_horoscope_token \<and>
   process_callback_query env_all_ok 5 (Oven @ [10]) world_fresh =
     (Inr (),
      \<lparr>store =
         \<lparr>users = [\<lparr>user_id = 5, zodiac_sign = Some (Oven @ [10]), notification_time = None,
                    created_at = 3, updated_at = 3\<rparr>],
          horoscopes = [\<lparr>hid = 1, h_user_id = 5, h_zodiac_sign = Some (Oven @ [10]),
                         prediction = [80], h_created_at = 4\<rparr>],
          horoscopes_seq = 1, foreign_keys = False\<rparr>,
       tick = 6,
       trace = [Answered, EditedMessage (generating_text (Oven @ [10])) [],
                GigaChatCall (user_content (Some (Oven @ [10]))),
                Committed (UpdateUserZodiac 5 (Oven @ [10])),
                Committed (SaveHoroscope 5 (Some (Oven @ [10])) [80]),
                Replied (result_text (Oven @ [10]) [80])]\<rparr>)"
proof -
  have a: "Oven @ [10] \<notin> set ZODIAC_SIGNS"
    by (simp add: ZODIAC_SIGNS_def Oven_def
          Telets_def Bliznetsy_def Rak_def Lev_def Deva_def Vesy_def Skorpion_def Strelets_def
          Kozerog_def Vodoley_def Ryby_def)
  have b: "Oven @ [10] \<noteq> get_horoscope_token"
    by (simp add: Oven_def get_horoscope_token_def)
  have m: "\<not> re_match_literals [get_horoscope_token] (Oven @ [10])"
    by (simp add: re_match_literals_iff Oven_def get_horoscope_token_def)
  have z: "re_match_literals ZODIAC_SIGNS (Oven @ [10])"
    by (simp add: re_match_literals_iff ZODIAC_SIGNS_def)
  have "process_callback_query env_all_ok 5 (Oven @ [10]) world_fresh =
      generate_horoscope env_all_ok 5 (Oven @ [10]) world_fresh"
    using m z by (simp add: process_callback_query_def)
  also have "\<dots> = (Inr (),
      \<lparr>store =
         \<lparr>users = [\<lparr>user_id = 5, zodiac_sign = Some (Oven @ [10]), notification_time = None,
                    created_at = 3, updated_at = 3\<rparr>],
          horoscopes = [\<lparr>hid = 1, h_user_id = 5, h_zodiac_sign = Some (Oven @ [10]),
                         prediction = [80], h_created_at = 4\<rparr>],
          horoscopes_seq = 1, foreign_keys = False\<rparr>,
       tick = 6,
       trace = [Answered, EditedMessage (generating_text (Oven @ [10])) [],
                GigaChatCall (user_content (Some (Oven @ [10]))),
                Committed (UpdateUserZodiac 5 (Oven @ [10])),
                Committed (SaveHoroscope 5 (Some (Oven @ [10])) [80]),
                Replied (result_text (Oven @ [10]) [80])]\<rparr>)"
    by (simp add: env_all_ok_def world_fresh_def generate_horoscope_def and_then_def
        tg_call_def try_except_def generate_try_def db_update_user_zodiac_def
        db_save_horoscope_def update_user_zodiac_def save_horoscope_def
        get_horoscope_prediction_def DatabaseManager_init_def Let_def)
  finally show ?thesis
    using a b by simp
qed

text \<open>
  C10. On a connection opened by \<^verbatim>\<open>DatabaseManager\<close>, after any run of store calls,
  \<^verbatim>\<open>save_horoscope\<close> appends the history row for every \<^verbatim>\<open>user_id\<close>, with or without a row in
  \<^verbatim>\<open>users\<close>: the declared FOREIGN KEY is not checked. It fails only when the storage layer
  itself raises.
\<close>

theorem save_horoscope_without_user_row:
  "(\<exists>d'. save_horoscope None now (db_run cs (DatabaseManager_init file)) uid sign pred = Inr d' \<and>
      horoscopes d' =
        horoscopes (db_run cs (DatabaseManager_init file)) @
          [\<lparr>hid = Suc (horoscopes_seq (db_run cs (DatabaseManager_init file))),
            h_user_id = uid, h_zodiac_sign = sign, prediction = pred, h_created_at = now\<rparr>]) \<and>
   save_horoscope (Some e) now (db_run cs (DatabaseManager_init file)) uid sign pred = Inl e"
proof -
  have "\<not> foreign_keys (db_run cs (DatabaseManager_init file))"
    by (simp add: db_run_foreign_keys DatabaseManager_init_def split: option.splits)
  then show ?thesis
    by (simp add: save_horoscope_def)
qed

end
